theory Spec2Isabelle
  imports Main
begin

section \<open>The operating-system capability consumed by the code\<close>

text \<open>
  Modelled from the spec: the capability interface of section 6 (GetCurrentNamespace,
  OpenNamespace, HandlesEqual, SetCurrentNamespace, FindInterfaceByName,
  ReassignInterfaceNamespace, ReleaseNamespace), which the repository consumes through the
  netns and netlink libraries and does not implement.

  A namespace identity is a natural number. A handle (netns.NsHandle) is an integer file
  descriptor; the open descriptors are the keys of \<open>fdt\<close>, which are natural numbers, so
  the invalid handle \<open>-1\<close> is never open. One operating thread is modelled: \<open>cur\<close> is
  its current namespace. \<open>ifaces\<close> holds the pairs (namespace, interface name) of the
  existing interfaces, \<open>paths\<close> resolves a namespace reference. Every call of the
  capability appends an event to \<open>trace\<close> and consumes one entry of the fault script
  \<open>faults\<close>: the entry \<open>True\<close> makes that call fail whatever the state is, an empty
  script injects nothing. A call also fails for its own reason (a handle that is not open,
  a reference that does not resolve, an interface that is not there). A new descriptor is
  \<open>fresh_fd\<close>, greater than every open one; the statements only use that it is not open.
  The definitions of the two packages run on one thread; the section on two threads runs
  the move under a schedule.
\<close>

datatype logmsg =
    MovedIntoClient string string
  | MovedIntoForwarder string string
  | FailedMoveIntoForwarderFor string string

datatype event =
    EvGet
  | EvGetFromPath string
  | EvSet int
  | EvLinkByName string
  | EvLinkSetNsFd string int
  | EvCloseFd int
  | EvNextRequest
  | EvNextClose
  | EvInfo logmsg
  | EvWarn logmsg

datatype error =
    OSError event
  | Downstream string
  | FailedInitNSSwitch error
  | FailedObtainClientHandle error
  | FailedSwitchTo int error
  | FailedGetInterface string error
  | FailedMoveInterface string int error
  | FailedSwitchBack error
  | FailedMoveIntoClient string error
  | FailedMoveIntoForwarder string error

datatype panic = PanicMessage error | NilPointerDereference

datatype 'a outcome = Returned 'a | Panicked panic

record os =
  cur :: nat
  fdt :: "(nat \<times> nat) list"
  paths :: "string \<rightharpoonup> nat"
  ifaces :: "(nat \<times> string) set"
  faults :: "bool list"
  trace :: "event list"

definition fd_lookup :: "os \<Rightarrow> int \<Rightarrow> nat option" where
  "fd_lookup s h = (if h < 0 then None else map_of (fdt s) (nat h))"

fun fresh_fd :: "(nat \<times> nat) list \<Rightarrow> nat" where
  "fresh_fd [] = 0"
| "fresh_fd ((k, v) # t) = max (Suc k) (fresh_fd t)"

definition emit :: "event \<Rightarrow> os \<Rightarrow> os" where
  "emit e s = s\<lparr>trace := trace s @ [e]\<rparr>"

definition take_fault :: "os \<Rightarrow> bool \<times> os" where
  "take_fault s = (case faults s of [] \<Rightarrow> (False, s) | b # bs \<Rightarrow> (b, s\<lparr>faults := bs\<rparr>))"

definition faulty :: "os \<Rightarrow> bool" where
  "faulty s = (case faults s of [] \<Rightarrow> False | b # bs \<Rightarrow> b)"

definition syscall :: "event \<Rightarrow> os \<Rightarrow> bool \<times> os" where
  "syscall e s = take_fault (emit e s)"

text \<open>netns.Get: a new handle on the namespace of the calling thread.\<close>

definition netns_Get :: "os \<Rightarrow> (error + int) \<times> os" where
  "netns_Get s =
     (case syscall EvGet s of
        (f, s1) \<Rightarrow>
          if f then (Inl (OSError EvGet), s1)
          else (Inr (int (fresh_fd (fdt s1))),
                s1\<lparr>fdt := (fresh_fd (fdt s1), cur s1) # fdt s1\<rparr>))"

text \<open>netns.GetFromPath: a new handle on the namespace a reference resolves to; the empty
  reference resolves to nothing.\<close>

definition netns_GetFromPath :: "string \<Rightarrow> os \<Rightarrow> (error + int) \<times> os" where
  "netns_GetFromPath p s =
     (case syscall (EvGetFromPath p) s of
        (f, s1) \<Rightarrow>
          if f then (Inl (OSError (EvGetFromPath p)), s1)
          else if p = [] then (Inl (OSError (EvGetFromPath p)), s1)
          else
            (case paths s1 p of
               None \<Rightarrow> (Inl (OSError (EvGetFromPath p)), s1)
             | Some n \<Rightarrow>
                 (Inr (int (fresh_fd (fdt s1))),
                  s1\<lparr>fdt := (fresh_fd (fdt s1), n) # fdt s1\<rparr>)))"

text \<open>NsHandle.Equal: the same descriptor, or two open descriptors of one namespace.\<close>

definition NsHandle_Equal :: "os \<Rightarrow> int \<Rightarrow> int \<Rightarrow> bool" where
  "NsHandle_Equal s a b =
     (a = b \<or> (case fd_lookup s a of None \<Rightarrow> False
                | Some x \<Rightarrow> (case fd_lookup s b of None \<Rightarrow> False | Some y \<Rightarrow> x = y)))"

text \<open>netns.Set: the calling thread enters the namespace of an open handle; a failed call
  leaves the thread where it was.\<close>

definition netns_Set :: "int \<Rightarrow> os \<Rightarrow> error option \<times> os" where
  "netns_Set h s =
     (case syscall (EvSet h) s of
        (f, s1) \<Rightarrow>
          if f then (Some (OSError (EvSet h)), s1)
          else
            (case fd_lookup s1 h of
               None \<Rightarrow> (Some (OSError (EvSet h)), s1)
             | Some n \<Rightarrow> (None, s1\<lparr>cur := n\<rparr>)))"

text \<open>NsHandle.Close: closes the descriptor and, on success, sets the handle variable to
  \<open>-1\<close>; the updated handle variable is returned with the error. The descriptor of an
  open handle is released also when the call reports an error.\<close>

definition NsHandle_Close :: "int \<Rightarrow> os \<Rightarrow> (error option \<times> int) \<times> os" where
  "NsHandle_Close h s =
     (case syscall (EvCloseFd h) s of
        (f, s1) \<Rightarrow>
          (case fd_lookup s1 h of
             None \<Rightarrow> ((Some (OSError (EvCloseFd h)), h), s1)
           | Some n \<Rightarrow>
               (if f then ((Some (OSError (EvCloseFd h)), h),
                           s1\<lparr>fdt := filter (\<lambda>kv. fst kv \<noteq> nat h) (fdt s1)\<rparr>)
                else ((None, - 1), s1\<lparr>fdt := filter (\<lambda>kv. fst kv \<noteq> nat h) (fdt s1)\<rparr>))))"

text \<open>netlink.LinkByName: the interface of that name in the current namespace of the thread.
  The link is represented by its name.\<close>

definition netlink_LinkByName :: "string \<Rightarrow> os \<Rightarrow> (error + string) \<times> os" where
  "netlink_LinkByName n s =
     (case syscall (EvLinkByName n) s of
        (f, s1) \<Rightarrow>
          if f then (Inl (OSError (EvLinkByName n)), s1)
          else if (cur s1, n) \<in> ifaces s1 then (Inr n, s1)
          else (Inl (OSError (EvLinkByName n)), s1))"

text \<open>netlink.LinkSetNsFd: the interface leaves the current namespace for the namespace of an
  open handle; it fails when the handle is not open, the interface is not in the current
  namespace, or another namespace already has an interface of that name.\<close>

definition netlink_LinkSetNsFd :: "string \<Rightarrow> int \<Rightarrow> os \<Rightarrow> error option \<times> os" where
  "netlink_LinkSetNsFd l h s =
     (case syscall (EvLinkSetNsFd l h) s of
        (f, s1) \<Rightarrow>
          if f then (Some (OSError (EvLinkSetNsFd l h)), s1)
          else
            (case fd_lookup s1 h of
               None \<Rightarrow> (Some (OSError (EvLinkSetNsFd l h)), s1)
             | Some n \<Rightarrow>
                 (if (cur s1, l) \<notin> ifaces s1 \<or> (n \<noteq> cur s1 \<and> (n, l) \<in> ifaces s1)
                  then (Some (OSError (EvLinkSetNsFd l h)), s1)
                  else (None, s1\<lparr>ifaces := insert (n, l) (ifaces s1 - {(cur s1, l)})\<rparr>))))"

section \<open>Package nsswitch\<close>

record NSSwitch =
  NetNSHandle :: int

text \<open>NewNSSwitch (ns_switch.go, lines 33-43). The thread lock is held for the whole
  function, which therefore runs on one thread.\<close>

definition NewNSSwitch :: "os \<Rightarrow> (error + NSSwitch) \<times> os" where
  "NewNSSwitch s =
     (case netns_Get s of
        (Inl e, s1) \<Rightarrow> (Inl e, s1)
      | (Inr h, s1) \<Rightarrow> (Inr \<lparr>NetNSHandle = h\<rparr>, s1))"

text \<open>SwitchTo (lines 46-58). The thread lock is held for the whole function and released
  when it returns.\<close>

definition SwitchTo :: "NSSwitch \<Rightarrow> int \<Rightarrow> os \<Rightarrow> error option \<times> os" where
  "SwitchTo sw netNSHandle s =
     (case netns_Get s of
        (Inl e, s1) \<Rightarrow> (Some e, s1)
      | (Inr currNetNSHandle, s1) \<Rightarrow>
          (if NsHandle_Equal s1 currNetNSHandle netNSHandle then (None, s1)
           else netns_Set netNSHandle s1))"

text \<open>Close of NSSwitch (lines 61-68); the switcher is returned updated.\<close>

definition NSSwitch_Close :: "NSSwitch \<Rightarrow> os \<Rightarrow> (error option \<times> NSSwitch) \<times> os" where
  "NSSwitch_Close sw s =
     (case NsHandle_Close (NetNSHandle sw) s of
        ((Some e, h), s1) \<Rightarrow> ((Some e, sw\<lparr>NetNSHandle := h\<rparr>), s1)
      | ((None, h), s1) \<Rightarrow> ((None, sw\<lparr>NetNSHandle := - 1\<rparr>), s1))"

text \<open>The same method called through a pointer: the nil pointer (\<open>None\<close>) is dereferenced
  by the first statement of the method.\<close>

definition NSSwitch_Close_ptr ::
  "NSSwitch option \<Rightarrow> os \<Rightarrow> (error option \<times> NSSwitch option) outcome \<times> os" where
  "NSSwitch_Close_ptr p s =
     (case p of
        None \<Rightarrow> (Panicked NilPointerDereference, s)
      | Some sw \<Rightarrow>
          (case NSSwitch_Close sw s of ((e, sw'), s1) \<Rightarrow> (Returned (e, Some sw'), s1)))"

section \<open>Package inject\<close>

text \<open>
  The connection as the element reads it: \<open>Id\<close> is \<open>GetId()\<close>, \<open>NetNSURL\<close> is what
  \<open>mech.GetNetNSURL()\<close> returns and \<open>InterfaceName\<close> what \<open>mech.GetInterfaceName(conn)\<close>
  returns; a parameter that is missing reads as the empty string. The request is
  represented by its connection. The next chain element is a parameter: any function from
  the request and the state to a result and a state.
\<close>

record connection =
  Id :: string
  NetNSURL :: string
  InterfaceName :: string

type_synonym next_request =
  "connection \<Rightarrow> os \<Rightarrow> (connection option \<times> error option) \<times> os"

type_synonym next_close =
  "connection \<Rightarrow> os \<Rightarrow> (unit option \<times> error option) \<times> os"

text \<open>The deferred function of initNetNSSwitchAndHandle (server.go, lines 104-108). It runs
  after the return statement has assigned the named results, and reads them.\<close>

definition init_deferred ::
  "NSSwitch option \<times> int \<times> error option \<Rightarrow> os
     \<Rightarrow> (NSSwitch option \<times> int \<times> error option) outcome \<times> os" where
  "init_deferred res s =
     (case res of
        (nsSwitch, clientNetNSHandle, None) \<Rightarrow> (Returned res, s)
      | (nsSwitch, clientNetNSHandle, Some e) \<Rightarrow>
          (case NSSwitch_Close_ptr nsSwitch s of
             (Panicked p, s1) \<Rightarrow> (Panicked p, s1)
           | (Returned r, s1) \<Rightarrow> (Returned res, s1)))"

text \<open>initNetNSSwitchAndHandle (lines 99-116). The first return precedes the defer
  statement; the second return assigns \<open>(nil, -1, err)\<close> to the named results before the
  deferred function runs.\<close>

definition initNetNSSwitchAndHandle ::
  "string \<Rightarrow> os \<Rightarrow> (NSSwitch option \<times> int \<times> error option) outcome \<times> os" where
  "initNetNSSwitchAndHandle netNSURL s =
     (case NewNSSwitch s of
        (Inl e, s1) \<Rightarrow> (Returned (None, - 1, Some (FailedInitNSSwitch e)), s1)
      | (Inr nsSwitch, s1) \<Rightarrow>
          (case netns_GetFromPath netNSURL s1 of
             (Inl e, s2) \<Rightarrow> init_deferred (None, - 1, Some (FailedObtainClientHandle e)) s2
           | (Inr clientNetNSHandle, s2) \<Rightarrow>
               init_deferred (Some nsSwitch, clientNetNSHandle, None) s2))"

text \<open>Lines 128-137 of moveInterfaceToAnotherNamespace: the lookup and the reassignment.\<close>

definition move_link :: "string \<Rightarrow> int \<Rightarrow> os \<Rightarrow> error option \<times> os" where
  "move_link ifName toNetNS s =
     (case netlink_LinkByName ifName s of
        (Inl e, s1) \<Rightarrow> (Some (FailedGetInterface ifName e), s1)
      | (Inr link, s1) \<Rightarrow>
          (case netlink_LinkSetNsFd link toNetNS s1 of
             (Some e, s2) \<Rightarrow> (Some (FailedMoveInterface ifName toNetNS e), s2)
           | (None, s2) \<Rightarrow> (None, s2)))"

text \<open>moveInterfaceToAnotherNamespace (lines 118-138). The deferred function switches back
  to the handle of the switcher on every exit after the first switch, and panics when that
  fails.\<close>

definition moveInterfaceToAnotherNamespace ::
  "NSSwitch \<Rightarrow> string \<Rightarrow> int \<Rightarrow> int \<Rightarrow> os \<Rightarrow> error option outcome \<times> os" where
  "moveInterfaceToAnotherNamespace nsSwitch ifName fromNetNS toNetNS s =
     (case SwitchTo nsSwitch fromNetNS s of
        (Some e, s1) \<Rightarrow> (Returned (Some (FailedSwitchTo fromNetNS e)), s1)
      | (None, s1) \<Rightarrow>
          (case move_link ifName toNetNS s1 of
             (r, s2) \<Rightarrow>
               (case SwitchTo nsSwitch (NetNSHandle nsSwitch) s2 of
                  (Some e, s3) \<Rightarrow> (Panicked (PanicMessage (FailedSwitchBack e)), s3)
                | (None, s3) \<Rightarrow> (Returned r, s3))))"

text \<open>The deferred function of Request and of Close (lines 54-57 and 85-88): both handles are
  closed, the errors dropped, whether the body returned or panicked.\<close>

definition release_handles :: "NSSwitch \<Rightarrow> int \<Rightarrow> os \<Rightarrow> os" where
  "release_handles nsSwitch clientNetNSHandle s =
     (case NSSwitch_Close nsSwitch s of
        (r, s1) \<Rightarrow> (case NsHandle_Close clientNetNSHandle s1 of (r', s2) \<Rightarrow> s2))"

text \<open>Lines 65-73 of Request: the delegation and the move back when it failed.\<close>

definition request_delegate ::
  "next_request \<Rightarrow> connection \<Rightarrow> NSSwitch \<Rightarrow> int \<Rightarrow> os
     \<Rightarrow> (connection option \<times> error option) outcome \<times> os" where
  "request_delegate nxt request nsSwitch clientNetNSHandle s =
     (case nxt request (emit EvNextRequest s) of
        ((conn, None), s1) \<Rightarrow> (Returned (conn, None), s1)
      | ((conn, Some err), s1) \<Rightarrow>
          (case moveInterfaceToAnotherNamespace nsSwitch (InterfaceName request)
                  clientNetNSHandle (NetNSHandle nsSwitch) s1 of
             (Panicked p, s2) \<Rightarrow> (Panicked p, s2)
           | (Returned (Some errMovingBack), s2) \<Rightarrow>
               (Returned (conn, Some err),
                emit (EvWarn (FailedMoveIntoForwarderFor (InterfaceName request) (Id request))) s2)
           | (Returned None, s2) \<Rightarrow>
               (Returned (conn, Some err),
                emit (EvInfo (MovedIntoForwarder (InterfaceName request) (Id request))) s2)))"

text \<open>Request (lines 44-74).\<close>

definition Request ::
  "next_request \<Rightarrow> connection \<Rightarrow> os \<Rightarrow> (connection option \<times> error option) outcome \<times> os" where
  "Request nxt request s =
     (case initNetNSSwitchAndHandle (NetNSURL request) s of
        (Panicked p, s1) \<Rightarrow> (Panicked p, s1)
      | (Returned (nsSwitch, clientNetNSHandle, Some err), s1) \<Rightarrow> (Returned (None, Some err), s1)
      | (Returned (None, clientNetNSHandle, None), s1) \<Rightarrow> (Panicked NilPointerDereference, s1)
      | (Returned (Some nsSwitch, clientNetNSHandle, None), s1) \<Rightarrow>
          (case moveInterfaceToAnotherNamespace nsSwitch (InterfaceName request)
                  (NetNSHandle nsSwitch) clientNetNSHandle s1 of
             (Panicked p, s2) \<Rightarrow> (Panicked p, release_handles nsSwitch clientNetNSHandle s2)
           | (Returned (Some err), s2) \<Rightarrow>
               (Returned (None, Some (FailedMoveIntoClient (InterfaceName request) err)),
                release_handles nsSwitch clientNetNSHandle s2)
           | (Returned None, s2) \<Rightarrow>
               (case request_delegate nxt request nsSwitch clientNetNSHandle
                       (emit (EvInfo (MovedIntoClient (InterfaceName request) (Id request))) s2) of
                  (out, s3) \<Rightarrow> (out, release_handles nsSwitch clientNetNSHandle s3))))"

text \<open>Close (lines 76-97).\<close>

definition Close ::
  "next_close \<Rightarrow> connection \<Rightarrow> os \<Rightarrow> (unit option \<times> error option) outcome \<times> os" where
  "Close nxt conn s =
     (case initNetNSSwitchAndHandle (NetNSURL conn) s of
        (Panicked p, s1) \<Rightarrow> (Panicked p, s1)
      | (Returned (nsSwitch, clientNetNSHandle, Some err), s1) \<Rightarrow> (Returned (None, Some err), s1)
      | (Returned (None, clientNetNSHandle, None), s1) \<Rightarrow> (Panicked NilPointerDereference, s1)
      | (Returned (Some nsSwitch, clientNetNSHandle, None), s1) \<Rightarrow>
          (case moveInterfaceToAnotherNamespace nsSwitch (InterfaceName conn)
                  clientNetNSHandle (NetNSHandle nsSwitch) s1 of
             (Panicked p, s2) \<Rightarrow> (Panicked p, release_handles nsSwitch clientNetNSHandle s2)
           | (Returned (Some err), s2) \<Rightarrow>
               (Returned (None, Some (FailedMoveIntoForwarder (InterfaceName conn) err)),
                release_handles nsSwitch clientNetNSHandle s2)
           | (Returned None, s2) \<Rightarrow>
               (case nxt conn (emit EvNextClose
                       (emit (EvInfo (MovedIntoForwarder (InterfaceName conn) (Id conn))) s2)) of
                  (r, s3) \<Rightarrow> (Returned r, release_handles nsSwitch clientNetNSHandle s3))))"

section \<open>The move on two threads\<close>

text \<open>
  NewNSSwitch and SwitchTo lock the goroutine to its thread for their own duration only
  (ns_switch.go, lines 34-35 and 47-48), and moveInterfaceToAnotherNamespace takes no lock
  (server.go, lines 118-138): between two calls the scheduler may move the goroutine to
  another thread. Two threads are modelled. \<open>running\<close> is the state as the thread of the
  goroutine has it: its \<open>cur\<close> is the namespace of that thread, the descriptors and the
  interfaces are those of the process. \<open>parked\<close> is the namespace of the other thread,
  and \<open>moved\<close> says that the goroutine is on the second thread. \<open>on_thread\<close> runs a
  call on the thread of the goroutine, \<open>reschedule\<close> moves the goroutine to the other
  thread when the schedule says so. The three points of the schedule are: after the first
  SwitchTo, between the lookup and the reassignment, and before the deferred SwitchTo.
\<close>

record threads =
  running :: os
  parked :: nat
  moved :: bool

definition migrate :: "threads \<Rightarrow> threads" where
  "migrate t =
     \<lparr>running = (running t)\<lparr>cur := parked t\<rparr>, parked = cur (running t), moved = (\<not> moved t)\<rparr>"

definition reschedule :: "bool \<Rightarrow> threads \<Rightarrow> threads" where
  "reschedule y t = (if y then migrate t else t)"

definition on_thread :: "(os \<Rightarrow> 'a \<times> os) \<Rightarrow> threads \<Rightarrow> 'a \<times> threads" where
  "on_thread f t = (case f (running t) of (r, s) \<Rightarrow> (r, t\<lparr>running := s\<rparr>))"

definition first_thread_ns :: "threads \<Rightarrow> nat" where
  "first_thread_ns t = (if moved t then parked t else cur (running t))"

definition second_thread_ns :: "threads \<Rightarrow> nat" where
  "second_thread_ns t = (if moved t then cur (running t) else parked t)"

definition move_link_sched :: "bool \<Rightarrow> string \<Rightarrow> int \<Rightarrow> threads \<Rightarrow> error option \<times> threads" where
  "move_link_sched y2 ifName toNetNS t =
     (case on_thread (netlink_LinkByName ifName) t of
        (Inl e, t1) \<Rightarrow> (Some (FailedGetInterface ifName e), t1)
      | (Inr link, t1) \<Rightarrow>
          (case on_thread (netlink_LinkSetNsFd link toNetNS) (reschedule y2 t1) of
             (Some e, t2) \<Rightarrow> (Some (FailedMoveInterface ifName toNetNS e), t2)
           | (None, t2) \<Rightarrow> (None, t2)))"

definition moveInterfaceToAnotherNamespace_sched ::
  "bool \<Rightarrow> bool \<Rightarrow> bool \<Rightarrow> NSSwitch \<Rightarrow> string \<Rightarrow> int \<Rightarrow> int \<Rightarrow> threads
     \<Rightarrow> error option outcome \<times> threads" where
  "moveInterfaceToAnotherNamespace_sched y1 y2 y3 nsSwitch ifName fromNetNS toNetNS t =
     (case on_thread (SwitchTo nsSwitch fromNetNS) t of
        (Some e, t1) \<Rightarrow> (Returned (Some (FailedSwitchTo fromNetNS e)), t1)
      | (None, t1) \<Rightarrow>
          (case move_link_sched y2 ifName toNetNS (reschedule y1 t1) of
             (r, t2) \<Rightarrow>
               (case on_thread (SwitchTo nsSwitch (NetNSHandle nsSwitch)) (reschedule y3 t2) of
                  (Some e, t3) \<Rightarrow> (Panicked (PanicMessage (FailedSwitchBack e)), t3)
                | (None, t3) \<Rightarrow> (Returned r, t3))))"

section \<open>Concrete states\<close>

text \<open>A thread in namespace 1 whose next capability call is scripted to fail; descriptor 0
  is open on namespace 1.\<close>

definition s_get_fails :: os where
  "s_get_fails =
     \<lparr>cur = 1, fdt = [(0, 1)], paths = Map.empty, ifaces = {}, faults = [True], trace = []\<rparr>"

text \<open>A thread in namespace 1 with descriptor 0 open on namespace 1 and descriptor 1 open on
  namespace 2, and no scripted fault.\<close>

definition s_two :: os where
  "s_two =
     \<lparr>cur = 1, fdt = [(0, 1), (1, 2)], paths = Map.empty, ifaces = {}, faults = [],
      trace = []\<rparr>"

text \<open>A thread in namespace 1 with descriptor 0 open on namespace 1, descriptor 1 open on
  namespace 2, the interface veth0 in namespace 1, and a given fault script.\<close>

definition s_move :: "bool list \<Rightarrow> os" where
  "s_move fs =
     \<lparr>cur = 1, fdt = [(0, 1), (1, 2)], paths = Map.empty, ifaces = {(1, ''veth0'')},
      faults = fs, trace = []\<rparr>"

text \<open>Two threads in the home namespace 1 with the interface veth0 in the target namespace
  2, as before a Close; descriptor 0 is the home handle, descriptor 1 the target handle.\<close>

definition t_close :: threads where
  "t_close = \<lparr>running = (s_move [])\<lparr>ifaces := {(2, ''veth0'')}\<rparr>, parked = 1, moved = False\<rparr>"

text \<open>The scenario of the spec: connection conn-1, interface veth0 in the home namespace 1,
  the target namespace 2 behind the reference /var/run/netns/client1, no open descriptor, a
  given fault script; and next chain elements that refuse, accept, and close.\<close>

definition conn1 :: connection where
  "conn1 = \<lparr>Id = ''conn-1'', NetNSURL = ''/var/run/netns/client1'', InterfaceName = ''veth0''\<rparr>"

definition s_home :: "bool list \<Rightarrow> os" where
  "s_home fs =
     \<lparr>cur = 1, fdt = [], paths = [''/var/run/netns/client1'' \<mapsto> 2],
      ifaces = {(1, ''veth0'')}, faults = fs, trace = []\<rparr>"

definition nxt_refuse :: next_request where
  "nxt_refuse r s = ((None, Some (Downstream ''refused'')), s)"

definition nxt_accept :: next_request where
  "nxt_accept r s = ((Some r, None), s)"

definition nxt_close_ok :: next_close where
  "nxt_close_ok c s = ((Some (), None), s)"

text \<open>The connection of the scenario without a target-namespace reference, and without an
  interface name.\<close>

definition conn_no_url :: connection where
  "conn_no_url = \<lparr>Id = ''conn-1'', NetNSURL = [], InterfaceName = ''veth0''\<rparr>"

definition conn_no_name :: connection where
  "conn_no_name = \<lparr>Id = ''conn-1'', NetNSURL = ''/var/run/netns/client1'', InterfaceName = []\<rparr>"

section \<open>Auxiliary notions of the statements\<close>

text \<open>Every handle open in the first state is open on the same namespace in the second.\<close>

definition fd_kept :: "os \<Rightarrow> os \<Rightarrow> bool" where
  "fd_kept s s1 = (\<forall>x m. fd_lookup s x = Some m \<longrightarrow> fd_lookup s1 x = Some m)"


section \<open>The capability calls as equations\<close>

lemma fresh_fd_gt: "(k, v) \<in> set t \<Longrightarrow> k < fresh_fd t"
  by (induction t) auto

lemma map_of_fresh_fd: "map_of t (fresh_fd t) = None"
proof (cases "map_of t (fresh_fd t)")
  case (Some v)
  then have "(fresh_fd t, v) \<in> set t" by (rule map_of_SomeD)
  then have "fresh_fd t < fresh_fd t" by (rule fresh_fd_gt)
  then show ?thesis by simp
qed simp

lemma map_of_filter_key:
  "map_of (filter (\<lambda>kv. fst kv \<noteq> k) t) x = (if x = k then None else map_of t x)"
  by (induction t) auto

lemma syscall_eq:
  "syscall e s = (faulty s, s\<lparr>faults := tl (faults s), trace := trace s @ [e]\<rparr>)"
  by (cases "faults s") (simp_all add: syscall_def take_fault_def emit_def faulty_def)

lemma fd_lookup_fresh: "fd_lookup s (int (fresh_fd (fdt s))) = None"
  by (simp add: fd_lookup_def map_of_fresh_fd)

lemma fd_lookup_neg: "h < 0 \<Longrightarrow> fd_lookup s h = None"
  by (simp add: fd_lookup_def)

lemma fd_lookup_cons:
  "fd_lookup (s\<lparr>fdt := (fresh_fd (fdt s), n) # fdt s, faults := fs, trace := tr\<rparr>) h =
     (if h = int (fresh_fd (fdt s)) then Some n else fd_lookup s h)"
  by (auto simp: fd_lookup_def)

lemma fd_lookup_closed:
  "fd_lookup (s\<lparr>fdt := filter (\<lambda>kv. fst kv \<noteq> nat h) (fdt s), faults := fs, trace := tr\<rparr>) x =
     (if x < 0 \<or> nat x = nat h then None else fd_lookup s x)"
  by (simp add: fd_lookup_def map_of_filter_key)

lemma netns_Get_eq:
  "netns_Get s =
     (if faulty s
      then (Inl (OSError EvGet), s\<lparr>faults := tl (faults s), trace := trace s @ [EvGet]\<rparr>)
      else (Inr (int (fresh_fd (fdt s))),
            s\<lparr>fdt := (fresh_fd (fdt s), cur s) # fdt s, faults := tl (faults s),
              trace := trace s @ [EvGet]\<rparr>))"
  by (simp add: netns_Get_def syscall_eq)

lemma netns_Set_eq:
  "netns_Set h s =
     (if faulty s \<or> fd_lookup s h = None
      then (Some (OSError (EvSet h)), s\<lparr>faults := tl (faults s), trace := trace s @ [EvSet h]\<rparr>)
      else (None, s\<lparr>cur := the (fd_lookup s h), faults := tl (faults s),
                    trace := trace s @ [EvSet h]\<rparr>))"
  by (auto simp add: netns_Set_def syscall_eq fd_lookup_def split: option.splits)

lemma NsHandle_Close_eq:
  "NsHandle_Close h s =
     (if fd_lookup s h = None
      then ((Some (OSError (EvCloseFd h)), h),
            s\<lparr>faults := tl (faults s), trace := trace s @ [EvCloseFd h]\<rparr>)
      else ((if faulty s then Some (OSError (EvCloseFd h)) else None, if faulty s then h else - 1),
            s\<lparr>fdt := filter (\<lambda>kv. fst kv \<noteq> nat h) (fdt s), faults := tl (faults s),
              trace := trace s @ [EvCloseFd h]\<rparr>))"
  by (auto simp add: NsHandle_Close_def syscall_eq fd_lookup_def split: option.splits)

lemma SwitchTo_eq:
  "SwitchTo sw h s =
     (if faulty s
      then (Some (OSError EvGet), s\<lparr>faults := tl (faults s), trace := trace s @ [EvGet]\<rparr>)
      else if h = int (fresh_fd (fdt s)) \<or> fd_lookup s h = Some (cur s)
        then (None, s\<lparr>fdt := (fresh_fd (fdt s), cur s) # fdt s, faults := tl (faults s),
                      trace := trace s @ [EvGet]\<rparr>)
      else netns_Set h (s\<lparr>fdt := (fresh_fd (fdt s), cur s) # fdt s, faults := tl (faults s),
                      trace := trace s @ [EvGet]\<rparr>))"
  by (auto simp: SwitchTo_def netns_Get_eq NsHandle_Equal_def fd_lookup_cons split: option.splits)

section \<open>SwitchTo\<close>

text \<open>
  C10. When reading the current namespace of the thread fails, SwitchTo returns that error;
  the only capability call issued is the read, so no set-current-namespace call is made,
  and the thread stays in its namespace.
\<close>

theorem SwitchTo_get_error:
  assumes "netns_Get s = (Inl e, s1)"
  shows "SwitchTo sw h s = (Some e, s1) \<and> trace s1 = trace s @ [EvGet] \<and> cur s1 = cur s"
  using assms by (auto simp: SwitchTo_def netns_Get_eq split: if_splits)

theorem SwitchTo_get_error_witness:
  "netns_Get s_get_fails = (Inl (OSError EvGet), s_get_fails\<lparr>faults := [], trace := [EvGet]\<rparr>)
   \<and> SwitchTo \<lparr>NetNSHandle = 0\<rparr> 5 s_get_fails
       = (Some (OSError EvGet), s_get_fails\<lparr>faults := [], trace := [EvGet]\<rparr>)"
proof -
  have h: "netns_Get s_get_fails
             = (Inl (OSError EvGet), s_get_fails\<lparr>faults := [], trace := [EvGet]\<rparr>)"
    by (simp add: netns_Get_def syscall_def take_fault_def emit_def s_get_fails_def)
  show ?thesis using h SwitchTo_get_error [OF h, of "\<lparr>NetNSHandle = 0\<rparr>" 5] by simp
qed

text \<open>
  C5, as stated, fails: with a target equal to the current namespace SwitchTo returns the
  error of the failed read instead of success, and with a different target it issues no
  set-current-namespace call when the read fails.
\<close>

theorem SwitchTo_compares_counterexample:
  "fd_lookup s_get_fails 0 = Some (cur s_get_fails)
   \<and> fst (SwitchTo \<lparr>NetNSHandle = 0\<rparr> 0 s_get_fails) = Some (OSError EvGet)
   \<and> fd_lookup (s_get_fails\<lparr>cur := 2\<rparr>) 0 = Some 1
   \<and> trace (snd (SwitchTo \<lparr>NetNSHandle = 0\<rparr> 0 (s_get_fails\<lparr>cur := 2\<rparr>))) = [EvGet]"
  by (simp add: SwitchTo_def netns_Get_def syscall_def take_fault_def emit_def s_get_fails_def
      fd_lookup_def)

text \<open>
  C5, amended. Provided the read of the current namespace succeeds, SwitchTo on an open
  target handle is a no-op when the namespace of the target is the current one: it returns
  success, the read is the only call, the thread stays where it is. Otherwise it issues
  exactly one set-current-namespace call, on the target, and returns the result of that call.
\<close>

theorem SwitchTo_compares:
  assumes "netns_Get s = (Inr c, s1)" and "fd_lookup s target = Some n"
  shows "(n = cur s \<longrightarrow>
            SwitchTo sw target s = (None, s1) \<and> trace s1 = trace s @ [EvGet] \<and> cur s1 = cur s)
       \<and> (n \<noteq> cur s \<longrightarrow>
            SwitchTo sw target s = netns_Set target s1
            \<and> trace (snd (SwitchTo sw target s)) = trace s @ [EvGet, EvSet target])"
  using assms fd_lookup_fresh [of s]
  by (auto simp: SwitchTo_eq netns_Get_eq netns_Set_eq split: if_splits)

theorem SwitchTo_compares_witness:
  "SwitchTo \<lparr>NetNSHandle = 0\<rparr> 0 s_two
     = (None, s_two\<lparr>fdt := (2, 1) # fdt s_two, trace := [EvGet]\<rparr>)
   \<and> trace (snd (SwitchTo \<lparr>NetNSHandle = 0\<rparr> 1 s_two)) = [EvGet, EvSet 1]"
proof -
  have g: "netns_Get s_two = (Inr 2, s_two\<lparr>fdt := (2, 1) # fdt s_two, trace := [EvGet]\<rparr>)"
    by (simp add: netns_Get_def syscall_def take_fault_def emit_def s_two_def)
  have a: "fd_lookup s_two 0 = Some 1"
    by (simp add: fd_lookup_def s_two_def)
  have b: "fd_lookup s_two 1 = Some 2"
    by (simp add: fd_lookup_def s_two_def)
  have c: "cur s_two = 1" "trace s_two = []"
    by (simp_all add: s_two_def)
  have d: "(2::nat) \<noteq> cur s_two"
    by (simp add: s_two_def)
  note same = SwitchTo_compares [OF g a, of "\<lparr>NetNSHandle = 0\<rparr>", THEN conjunct1]
  note other = SwitchTo_compares [OF g b, of "\<lparr>NetNSHandle = 0\<rparr>", THEN conjunct2, THEN mp,
      OF d, THEN conjunct2]
  show ?thesis
    using same other c by simp
qed

section \<open>Close of the switcher\<close>

text \<open>
  C9. When Close of an NSSwitch succeeds, the stored home handle is set to \<open>-1\<close> and the
  descriptor of the original handle is released. A second Close operates on \<open>-1\<close>: it
  fails, closes nothing, and its only call is on \<open>-1\<close>, which is not the original handle.
\<close>

theorem NSSwitch_Close_once:
  assumes "NSSwitch_Close sw s = ((None, sw'), s')"
  shows "NetNSHandle sw' = - 1 \<and> NetNSHandle sw \<noteq> - 1
       \<and> fd_lookup s' (NetNSHandle sw) = None
       \<and> trace s' = trace s @ [EvCloseFd (NetNSHandle sw)]
       \<and> fst (NSSwitch_Close sw' s') = (Some (OSError (EvCloseFd (- 1))), sw')
       \<and> fdt (snd (NSSwitch_Close sw' s')) = fdt s'
       \<and> trace (snd (NSSwitch_Close sw' s')) = trace s' @ [EvCloseFd (- 1)]"
  using assms
  by (auto simp: NSSwitch_Close_def NsHandle_Close_eq fd_lookup_closed fd_lookup_neg
      split: if_splits)

theorem NSSwitch_Close_once_witness:
  "NSSwitch_Close \<lparr>NetNSHandle = 0\<rparr> s_two
     = ((None, \<lparr>NetNSHandle = - 1\<rparr>), s_two\<lparr>fdt := [(1, 2)], trace := [EvCloseFd 0]\<rparr>)
   \<and> fst (NSSwitch_Close \<lparr>NetNSHandle = - 1\<rparr> (s_two\<lparr>fdt := [(1, 2)], trace := [EvCloseFd 0]\<rparr>))
       = (Some (OSError (EvCloseFd (- 1))), \<lparr>NetNSHandle = - 1\<rparr>)
   \<and> trace (snd (NSSwitch_Close \<lparr>NetNSHandle = - 1\<rparr>
                 (s_two\<lparr>fdt := [(1, 2)], trace := [EvCloseFd 0]\<rparr>)))
       = [EvCloseFd 0, EvCloseFd (- 1)]"
proof -
  have h: "NSSwitch_Close \<lparr>NetNSHandle = 0\<rparr> s_two
     = ((None, \<lparr>NetNSHandle = - 1\<rparr>), s_two\<lparr>fdt := [(1, 2)], trace := [EvCloseFd 0]\<rparr>)"
    by (simp add: NSSwitch_Close_def NsHandle_Close_def syscall_def take_fault_def emit_def
        fd_lookup_def s_two_def)
  show ?thesis using h NSSwitch_Close_once [OF h] by simp
qed

section \<open>Frame properties of the switch and of the move\<close>

lemma fd_kept_trans: "fd_kept s s1 \<Longrightarrow> fd_kept s1 s2 \<Longrightarrow> fd_kept s s2"
  by (simp add: fd_kept_def)

lemma fd_kept_D: "fd_kept s s1 \<Longrightarrow> fd_lookup s x = Some m \<Longrightarrow> fd_lookup s1 x = Some m"
  by (simp add: fd_kept_def)

lemma fd_kept_same: "fdt s1 = fdt s \<Longrightarrow> fd_kept s s1"
  by (simp add: fd_kept_def fd_lookup_def)

lemma fd_kept_cons: "fdt s1 = (fresh_fd (fdt s), n) # fdt s \<Longrightarrow> fd_kept s s1"
  using map_of_fresh_fd [of "fdt s"]
  by (auto simp: fd_kept_def fd_lookup_def)

lemma SwitchTo_fdt:
  assumes "SwitchTo sw h s = (r, s1)"
  shows "fdt s1 = fdt s \<or> fdt s1 = (fresh_fd (fdt s), cur s) # fdt s"
  using assms
  by (auto simp: SwitchTo_eq netns_Set_eq split: if_splits)

lemma SwitchTo_frame:
  assumes "SwitchTo sw h s = (r, s1)"
  shows "ifaces s1 = ifaces s" and "paths s1 = paths s"
  using assms
  by (auto simp: SwitchTo_eq netns_Set_eq split: if_splits)

lemma SwitchTo_kept:
  assumes "SwitchTo sw h s = (r, s1)"
  shows "fd_kept s s1"
  using SwitchTo_fdt [OF assms] fd_kept_same fd_kept_cons by blast

lemma SwitchTo_trace:
  assumes "SwitchTo sw h s = (r, s1)"
  shows "trace s1 = trace s @ [EvGet] \<or> trace s1 = trace s @ [EvGet, EvSet h]"
  using assms
  by (auto simp: SwitchTo_eq netns_Set_eq split: if_splits)

lemma SwitchTo_None:
  assumes "SwitchTo sw h s = (None, s1)"
  shows "fd_lookup s1 h = Some (cur s1)"
  using assms map_of_fresh_fd [of "fdt s"]
  by (auto simp: SwitchTo_eq netns_Set_eq fd_lookup_def split: if_splits)

lemma SwitchTo_Some:
  assumes "SwitchTo sw h s = (Some e, s1)"
  shows "cur s1 = cur s"
  using assms
  by (auto simp: SwitchTo_eq netns_Set_eq split: if_splits)

lemma netlink_LinkByName_eq:
  "netlink_LinkByName n s =
     (if \<not> faulty s \<and> (cur s, n) \<in> ifaces s then Inr n else Inl (OSError (EvLinkByName n)),
      s\<lparr>faults := tl (faults s), trace := trace s @ [EvLinkByName n]\<rparr>)"
  by (simp add: netlink_LinkByName_def syscall_eq)

lemma netlink_LinkSetNsFd_eq:
  "netlink_LinkSetNsFd l h s =
     (if \<not> faulty s \<and> fd_lookup s h \<noteq> None \<and> (cur s, l) \<in> ifaces s
          \<and> (the (fd_lookup s h) = cur s \<or> (the (fd_lookup s h), l) \<notin> ifaces s)
      then (None, s\<lparr>ifaces := insert (the (fd_lookup s h), l) (ifaces s - {(cur s, l)}),
                    faults := tl (faults s), trace := trace s @ [EvLinkSetNsFd l h]\<rparr>)
      else (Some (OSError (EvLinkSetNsFd l h)),
            s\<lparr>faults := tl (faults s), trace := trace s @ [EvLinkSetNsFd l h]\<rparr>))"
  by (auto simp add: netlink_LinkSetNsFd_def syscall_eq fd_lookup_def split: option.splits)

lemma move_link_eq:
  "move_link n to s =
     (if faulty s \<or> (cur s, n) \<notin> ifaces s
      then (Some (FailedGetInterface n (OSError (EvLinkByName n))),
            s\<lparr>faults := tl (faults s), trace := trace s @ [EvLinkByName n]\<rparr>)
      else if \<not> faulty (s\<lparr>faults := tl (faults s)\<rparr>) \<and> fd_lookup s to \<noteq> None
              \<and> (the (fd_lookup s to) = cur s \<or> (the (fd_lookup s to), n) \<notin> ifaces s)
      then (None, s\<lparr>ifaces := insert (the (fd_lookup s to), n) (ifaces s - {(cur s, n)}),
                    faults := tl (tl (faults s)),
                    trace := trace s @ [EvLinkByName n, EvLinkSetNsFd n to]\<rparr>)
      else (Some (FailedMoveInterface n to (OSError (EvLinkSetNsFd n to))),
            s\<lparr>faults := tl (tl (faults s)),
              trace := trace s @ [EvLinkByName n, EvLinkSetNsFd n to]\<rparr>))"
  by (auto simp add: move_link_def netlink_LinkByName_eq netlink_LinkSetNsFd_eq fd_lookup_def
      faulty_def)

lemma move_link_frame:
  assumes "move_link n to s = (r, s1)"
  shows "cur s1 = cur s" and "fdt s1 = fdt s" and "paths s1 = paths s"
    and "trace s1 = trace s @ [EvLinkByName n]
         \<or> trace s1 = trace s @ [EvLinkByName n, EvLinkSetNsFd n to]"
  using assms
  by (auto simp: move_link_eq split: if_splits)

lemma move_link_Some:
  assumes "move_link n to s = (Some e, s1)"
  shows "ifaces s1 = ifaces s"
  using assms
  by (auto simp: move_link_eq split: if_splits)


section \<open>moveInterfaceToAnotherNamespace\<close>

text \<open>
  C7. When the initial switch to the source namespace fails, moveInterfaceToAnotherNamespace
  returns that error, wrapped as a failure to switch, in the state the switch left: the
  only capability calls are those of that one SwitchTo (the read, and the set call when it
  is the one that failed), so there is no lookup, no reassignment and no restore switch;
  the namespace of the thread and the interfaces are unchanged.
\<close>

theorem move_first_switch_fails:
  assumes "SwitchTo sw from s = (Some e, s1)"
  shows "moveInterfaceToAnotherNamespace sw n from to s
           = (Returned (Some (FailedSwitchTo from e)), s1)
       \<and> cur s1 = cur s \<and> ifaces s1 = ifaces s
       \<and> (trace s1 = trace s @ [EvGet] \<or> trace s1 = trace s @ [EvGet, EvSet from])"
  using assms SwitchTo_Some [OF assms] SwitchTo_frame(1) [OF assms] SwitchTo_trace [OF assms]
  by (simp add: moveInterfaceToAnotherNamespace_def)

theorem move_first_switch_fails_witness:
  "moveInterfaceToAnotherNamespace \<lparr>NetNSHandle = 0\<rparr> ''veth0'' 0 1 (s_move [True])
     = (Returned (Some (FailedSwitchTo 0 (OSError EvGet))),
        (s_move [True])\<lparr>faults := [], trace := [EvGet]\<rparr>)"
proof -
  have h: "SwitchTo \<lparr>NetNSHandle = 0\<rparr> 0 (s_move [True])
             = (Some (OSError EvGet), (s_move [True])\<lparr>faults := [], trace := [EvGet]\<rparr>)"
    by (simp add: SwitchTo_eq faulty_def s_move_def)
  show ?thesis using move_first_switch_fails [OF h, THEN conjunct1] .
qed

text \<open>
  On one thread, that is when the goroutine is not moved during the call: when the initial
  switch succeeds, on every exit that returns (success, lookup failure or reassignment
  failure) the home handle of the switcher denotes the current namespace of the thread, and
  that is the namespace the handle denoted at the call when it was open then. The only
  other exit is the panic raised because the restore switch failed.
\<close>

theorem move_restores_home:
  assumes "SwitchTo sw from s = (None, s1)"
    and "moveInterfaceToAnotherNamespace sw n from to s = (out, s')"
  shows "(\<forall>r. out = Returned r \<longrightarrow>
            fd_lookup s' (NetNSHandle sw) = Some (cur s')
            \<and> (\<forall>home. fd_lookup s (NetNSHandle sw) = Some home \<longrightarrow> cur s' = home))
       \<and> (\<forall>p. out = Panicked p \<longrightarrow>
            (\<exists>e. p = PanicMessage (FailedSwitchBack e)
                 \<and> fst (SwitchTo sw (NetNSHandle sw) (snd (move_link n to s1))) = Some e))"
proof -
  obtain r s2 where ml: "move_link n to s1 = (r, s2)"
    by (cases "move_link n to s1")
  obtain b s3 where sb: "SwitchTo sw (NetNSHandle sw) s2 = (b, s3)"
    by (cases "SwitchTo sw (NetNSHandle sw) s2")
  have k: "fd_kept s s3"
    using SwitchTo_kept [OF assms(1)] SwitchTo_kept [OF sb] fd_kept_same [OF move_link_frame(2) [OF ml]]
    by (blast intro: fd_kept_trans)
  show ?thesis
  proof (cases b)
    case None
    then have "out = Returned r" and "s' = s3"
      using assms ml sb by (simp_all add: moveInterfaceToAnotherNamespace_def)
    moreover have "fd_lookup s3 (NetNSHandle sw) = Some (cur s3)"
      using SwitchTo_None sb None by blast
    ultimately show ?thesis
      using fd_kept_D [OF k] by auto
  next
    case (Some e)
    then have "out = Panicked (PanicMessage (FailedSwitchBack e))"
      using assms ml sb by (simp add: moveInterfaceToAnotherNamespace_def)
    then show ?thesis
      using ml sb Some by simp
  qed
qed

theorem move_restores_home_witness:
  "fst (moveInterfaceToAnotherNamespace \<lparr>NetNSHandle = 0\<rparr> ''veth0'' 1 0
          ((s_move [])\<lparr>ifaces := {(2, ''veth0'')}\<rparr>)) = Returned None
   \<and> cur (snd (moveInterfaceToAnotherNamespace \<lparr>NetNSHandle = 0\<rparr> ''veth0'' 1 0
          ((s_move [])\<lparr>ifaces := {(2, ''veth0'')}\<rparr>))) = 1"
proof -
  let ?s = "(s_move [])\<lparr>ifaces := {(2, ''veth0'')}\<rparr>"
  let ?sw = "\<lparr>NetNSHandle = 0\<rparr>"
  have h1: "SwitchTo ?sw 1 ?s = (None, snd (SwitchTo ?sw 1 ?s))"
    by (simp add: SwitchTo_eq netns_Set_eq faulty_def fd_lookup_def s_move_def)
  have f: "fst (moveInterfaceToAnotherNamespace ?sw ''veth0'' 1 0 ?s) = Returned None"
    by (simp add: moveInterfaceToAnotherNamespace_def SwitchTo_eq move_link_eq netns_Set_eq
        faulty_def fd_lookup_def s_move_def)
  have h2: "moveInterfaceToAnotherNamespace ?sw ''veth0'' 1 0 ?s
              = (Returned None, snd (moveInterfaceToAnotherNamespace ?sw ''veth0'' 1 0 ?s))"
    by (simp add: prod_eq_iff f)
  have h3: "fd_lookup ?s (NetNSHandle ?sw) = Some 1"
    by (simp add: fd_lookup_def s_move_def)
  show ?thesis
    using f h3 move_restores_home [OF h1 h2] by simp
qed

text \<open>
  C4. When the restore switch fails, after any result of the lookup and the reassignment,
  moveInterfaceToAnotherNamespace does not return: it panics with the error of the restore
  switch wrapped as a failure to switch back, whatever the result of the body was.
\<close>

theorem move_restore_failure_panics:
  assumes "SwitchTo sw from s = (None, s1)"
    and "move_link n to s1 = (r, s2)"
    and "SwitchTo sw (NetNSHandle sw) s2 = (Some e, s3)"
  shows "moveInterfaceToAnotherNamespace sw n from to s
           = (Panicked (PanicMessage (FailedSwitchBack e)), s3)"
  using assms by (simp add: moveInterfaceToAnotherNamespace_def)

theorem move_restore_failure_panics_witness:
  "fst (moveInterfaceToAnotherNamespace \<lparr>NetNSHandle = 0\<rparr> ''veth0'' 0 1
          (s_move [False, False, False, True]))
     = Panicked (PanicMessage (FailedSwitchBack (OSError EvGet)))"
proof -
  let ?s = "s_move [False, False, False, True]"
  let ?sw = "\<lparr>NetNSHandle = 0\<rparr>"
  let ?s1 = "snd (SwitchTo ?sw 0 ?s)"
  let ?s2 = "snd (move_link ''veth0'' 1 ?s1)"
  let ?s3 = "snd (SwitchTo ?sw (NetNSHandle ?sw) ?s2)"
  have h1: "SwitchTo ?sw 0 ?s = (None, ?s1)"
    by (simp add: SwitchTo_eq faulty_def fd_lookup_def s_move_def)
  have h2: "move_link ''veth0'' 1 ?s1 = (None, ?s2)"
    by (simp add: SwitchTo_eq move_link_eq faulty_def fd_lookup_def s_move_def)
  have h3: "SwitchTo ?sw (NetNSHandle ?sw) ?s2 = (Some (OSError EvGet), ?s3)"
    by (simp add: SwitchTo_eq move_link_eq faulty_def fd_lookup_def s_move_def)
  show ?thesis
    using move_restore_failure_panics [OF h1 h2 h3] by simp
qed

section \<open>The move under the scheduler\<close>

lemma on_thread_eq:
  "f (running t) = (r, s) \<Longrightarrow> on_thread f t = (r, t\<lparr>running := s\<rparr>)"
  by (simp add: on_thread_def)

lemma on_thread_D:
  assumes "on_thread f t = (r, t1)"
  shows "f (running t) = (r, running t1)" and "parked t1 = parked t" and "moved t1 = moved t"
  using assms by (auto simp: on_thread_def split: prod.splits)

lemma move_link_sched_False:
  "move_link_sched False n to t = on_thread (move_link n to) t"
  by (auto simp: move_link_sched_def move_link_def on_thread_def reschedule_def
      split: prod.splits sum.splits option.splits)

text \<open>A schedule that never moves the goroutine gives the move on one thread.\<close>

lemma move_sched_never:
  "moveInterfaceToAnotherNamespace_sched False False False sw n from to t
     = on_thread (moveInterfaceToAnotherNamespace sw n from to) t"
  by (auto simp: moveInterfaceToAnotherNamespace_sched_def moveInterfaceToAnotherNamespace_def
      move_link_sched_False on_thread_def reschedule_def
      split: prod.splits option.splits)

text \<open>
  C1 fails on the code. The thread lock is released when SwitchTo returns, so the deferred
  restore may run on another thread than the first switch. When the first switch succeeded
  on the first thread, the lookup and the reassignment ran there, and the scheduler then
  moves the goroutine to a second thread that is in the home namespace, the restore reads
  home as the current namespace and issues no set call: the move returns the result of the
  body, with no panic, and the first thread stays in the source namespace.
\<close>

theorem move_leaves_thread_outside_home:
  assumes sw1: "on_thread (SwitchTo sw from) t = (None, t1)"
    and ml: "move_link_sched False n to t1 = (r, t2)"
    and home: "fd_lookup (running t2) (NetNSHandle sw) = Some (parked t2)"
    and nf: "\<not> faulty (running t2)"
    and first: "\<not> moved t"
  shows "\<exists>t3. moveInterfaceToAnotherNamespace_sched False False True sw n from to t
                 = (Returned r, t3)
           \<and> first_thread_ns t3 = cur (running t1)
           \<and> fd_lookup (running t1) from = Some (cur (running t1))
           \<and> second_thread_ns t3 = parked t2
           \<and> fd_lookup (running t3) (NetNSHandle sw) = Some (parked t2)
           \<and> trace (running t3) = trace (running t2) @ [EvGet]"
proof -
  have m1: "moved t1 = False" "parked t1 = parked t"
    using on_thread_D(2,3) [OF sw1] first by simp_all
  have src: "fd_lookup (running t1) from = Some (cur (running t1))"
    using SwitchTo_None [OF on_thread_D(1) [OF sw1]] .
  have ml': "on_thread (move_link n to) t1 = (r, t2)"
    using ml by (simp add: move_link_sched_False)
  have m2: "moved t2 = False" "parked t2 = parked t1" "cur (running t2) = cur (running t1)"
    using on_thread_D(2,3) [OF ml'] m1 move_link_frame(1) [OF on_thread_D(1) [OF ml']]
    by simp_all
  let ?u = "migrate t2"
  let ?s3 = "(running ?u)\<lparr>fdt := (fresh_fd (fdt (running ?u)), cur (running ?u)) # fdt (running ?u),
               faults := tl (faults (running ?u)), trace := trace (running ?u) @ [EvGet]\<rparr>"
  have st: "SwitchTo sw (NetNSHandle sw) (running ?u) = (None, ?s3)"
    using home nf by (auto simp: SwitchTo_eq migrate_def faulty_def fd_lookup_def split: if_splits)
  have run: "moveInterfaceToAnotherNamespace_sched False False True sw n from to t
               = (Returned r, ?u\<lparr>running := ?s3\<rparr>)"
    using sw1 ml on_thread_eq [where f = "SwitchTo sw (NetNSHandle sw)" and t = "migrate t2", OF st]
    by (simp add: moveInterfaceToAnotherNamespace_sched_def reschedule_def)
  have k: "fd_lookup ?s3 (NetNSHandle sw) = Some (parked t2)"
    using home map_of_fresh_fd [of "fdt (running t2)"]
    by (auto simp: migrate_def fd_lookup_def)
  show ?thesis
    using run src m2 k
    by (simp add: first_thread_ns_def second_thread_ns_def migrate_def)
qed

theorem move_leaves_thread_outside_home_witness:
  "moveInterfaceToAnotherNamespace_sched False False True \<lparr>NetNSHandle = 0\<rparr> ''veth0'' 1 0 t_close
     = (Returned None,
        \<lparr>running =
           \<lparr>cur = 1, fdt = [(3, 1), (2, 1), (0, 1), (1, 2)], paths = Map.empty,
            ifaces = {(1, ''veth0'')}, faults = [],
            trace = [EvGet, EvSet 1, EvLinkByName ''veth0'', EvLinkSetNsFd ''veth0'' 0, EvGet]\<rparr>,
         parked = 2, moved = True\<rparr>)
   \<and> first_thread_ns (snd (moveInterfaceToAnotherNamespace_sched False False True
          \<lparr>NetNSHandle = 0\<rparr> ''veth0'' 1 0 t_close)) = 2
   \<and> fd_lookup (running t_close) 0 = Some 1"
proof -
  let ?sw = "\<lparr>NetNSHandle = 0\<rparr>"
  let ?t1 = "snd (on_thread (SwitchTo ?sw 1) t_close)"
  let ?t2 = "snd (move_link_sched False ''veth0'' 0 ?t1)"
  have h1: "on_thread (SwitchTo ?sw 1) t_close = (None, ?t1)"
    by (simp add: prod_eq_iff on_thread_def SwitchTo_eq netns_Set_eq faulty_def fd_lookup_def
        t_close_def s_move_def)
  have h2: "move_link_sched False ''veth0'' 0 ?t1 = (None, ?t2)"
    by (simp add: prod_eq_iff move_link_sched_False on_thread_def SwitchTo_eq netns_Set_eq
        move_link_eq faulty_def fd_lookup_def t_close_def s_move_def)
  have h3: "fd_lookup (running ?t2) (NetNSHandle ?sw) = Some (parked ?t2)"
    by (simp add: move_link_sched_False on_thread_def SwitchTo_eq netns_Set_eq
        move_link_eq faulty_def fd_lookup_def t_close_def s_move_def)
  have h4: "\<not> faulty (running ?t2)"
    by (simp add: move_link_sched_False on_thread_def SwitchTo_eq netns_Set_eq
        move_link_eq faulty_def fd_lookup_def t_close_def s_move_def)
  have h5: "\<not> moved t_close"
    by (simp add: t_close_def)
  obtain t3 where r: "moveInterfaceToAnotherNamespace_sched False False True ?sw ''veth0'' 1 0 t_close
                        = (Returned None, t3)"
      "first_thread_ns t3 = cur (running ?t1)"
    using move_leaves_thread_outside_home [OF h1 h2 h3 h4 h5] by blast
  have c: "cur (running ?t1) = 2"
    by (simp add: on_thread_def SwitchTo_eq netns_Set_eq faulty_def fd_lookup_def
        t_close_def s_move_def)
  have e: "moveInterfaceToAnotherNamespace_sched False False True ?sw ''veth0'' 1 0 t_close
     = (Returned None,
        \<lparr>running =
           \<lparr>cur = 1, fdt = [(3, 1), (2, 1), (0, 1), (1, 2)], paths = Map.empty,
            ifaces = {(1, ''veth0'')}, faults = [],
            trace = [EvGet, EvSet 1, EvLinkByName ''veth0'', EvLinkSetNsFd ''veth0'' 0, EvGet]\<rparr>,
         parked = 2, moved = True\<rparr>)"
    by (simp add: moveInterfaceToAnotherNamespace_sched_def move_link_sched_False on_thread_def
        reschedule_def migrate_def SwitchTo_eq netns_Set_eq move_link_eq faulty_def fd_lookup_def
        t_close_def s_move_def)
  have f: "fd_lookup (running t_close) 0 = Some 1"
    by (simp add: fd_lookup_def t_close_def s_move_def)
  show ?thesis
    using r c e f by simp
qed

section \<open>Acquisition and release of the handles\<close>

lemma netns_GetFromPath_eq:
  "netns_GetFromPath p s =
     (if faulty s \<or> p = [] \<or> paths s p = None
      then (Inl (OSError (EvGetFromPath p)),
            s\<lparr>faults := tl (faults s), trace := trace s @ [EvGetFromPath p]\<rparr>)
      else (Inr (int (fresh_fd (fdt s))),
            s\<lparr>fdt := (fresh_fd (fdt s), the (paths s p)) # fdt s, faults := tl (faults s),
              trace := trace s @ [EvGetFromPath p]\<rparr>))"
  by (auto simp add: netns_GetFromPath_def syscall_eq split: option.splits)

lemmas run_simps =
  Request_def Close_def request_delegate_def initNetNSSwitchAndHandle_def init_deferred_def
  NewNSSwitch_def NSSwitch_Close_ptr_def netns_Get_eq netns_GetFromPath_eq
  moveInterfaceToAnotherNamespace_def SwitchTo_eq netns_Set_eq move_link_eq
  release_handles_def NSSwitch_Close_def NsHandle_Close_eq emit_def faulty_def fd_lookup_def

lemma NsHandle_Close_frame:
  assumes "NsHandle_Close h s = (r, s1)"
  shows "fd_lookup s1 h = None"
    and "fd_lookup s x = None \<Longrightarrow> fd_lookup s1 x = None"
    and "trace s1 = trace s @ [EvCloseFd h]"
    and "cur s1 = cur s" and "ifaces s1 = ifaces s" and "paths s1 = paths s"
  using assms
  by (auto simp: NsHandle_Close_eq fd_lookup_def map_of_filter_key split: if_splits)

lemma release_handles_eq:
  "fd_lookup (release_handles sw h s) (NetNSHandle sw) = None"
  "fd_lookup (release_handles sw h s) h = None"
  "trace (release_handles sw h s) = trace s @ [EvCloseFd (NetNSHandle sw), EvCloseFd h]"
  "cur (release_handles sw h s) = cur s"
  "ifaces (release_handles sw h s) = ifaces s"
  "paths (release_handles sw h s) = paths s"
proof -
  obtain r s1 where a: "NsHandle_Close (NetNSHandle sw) s = (r, s1)"
    by (cases "NsHandle_Close (NetNSHandle sw) s")
  obtain r' s2 where b: "NsHandle_Close h s1 = (r', s2)"
    by (cases "NsHandle_Close h s1")
  have e: "release_handles sw h s = s2"
    using a b by (simp add: release_handles_def NSSwitch_Close_def split: prod.splits option.splits)
  show "fd_lookup (release_handles sw h s) (NetNSHandle sw) = None"
    using e NsHandle_Close_frame(1) [OF a] NsHandle_Close_frame(2) [OF b] by simp
  show "fd_lookup (release_handles sw h s) h = None"
    using e NsHandle_Close_frame(1) [OF b] by simp
  show "trace (release_handles sw h s) = trace s @ [EvCloseFd (NetNSHandle sw), EvCloseFd h]"
    using e NsHandle_Close_frame(3) [OF a] NsHandle_Close_frame(3) [OF b] by simp
  show "cur (release_handles sw h s) = cur s"
    using e NsHandle_Close_frame(4) [OF a] NsHandle_Close_frame(4) [OF b] by simp
  show "ifaces (release_handles sw h s) = ifaces s"
    using e NsHandle_Close_frame(5) [OF a] NsHandle_Close_frame(5) [OF b] by simp
  show "paths (release_handles sw h s) = paths s"
    using e NsHandle_Close_frame(6) [OF a] NsHandle_Close_frame(6) [OF b] by simp
qed

lemma init_Some_trace:
  assumes "initNetNSSwitchAndHandle url s = (Returned (Some sw, h, None), s1)"
  shows "trace s1 = trace s @ [EvGet, EvGetFromPath url]"
  using assms
  by (auto simp: initNetNSSwitchAndHandle_def init_deferred_def NewNSSwitch_def
      NSSwitch_Close_ptr_def netns_Get_eq netns_GetFromPath_eq split: if_splits)

lemma move_trace:
  assumes "moveInterfaceToAnotherNamespace sw n from to s = (out, s')"
  shows "\<exists>tr. trace s' = trace s @ tr
           \<and> set tr \<subseteq> {EvGet, EvSet from, EvSet (NetNSHandle sw), EvLinkByName n,
                        EvLinkSetNsFd n to}"
proof -
  obtain a s1 where sa: "SwitchTo sw from s = (a, s1)"
    by (cases "SwitchTo sw from s")
  obtain r s2 where ml: "move_link n to s1 = (r, s2)"
    by (cases "move_link n to s1")
  obtain b s3 where sb: "SwitchTo sw (NetNSHandle sw) s2 = (b, s3)"
    by (cases "SwitchTo sw (NetNSHandle sw) s2")
  show ?thesis
  proof (cases a)
    case (Some e)
    then have "s' = s1"
      using assms sa by (simp add: moveInterfaceToAnotherNamespace_def)
    then show ?thesis
      using SwitchTo_trace [OF sa] by auto
  next
    case None
    then have "s' = s3"
      using assms sa ml sb by (simp add: moveInterfaceToAnotherNamespace_def split: option.splits)
    then show ?thesis
      using SwitchTo_trace [OF sa] move_link_frame(4) [OF ml] SwitchTo_trace [OF sb] by auto
  qed
qed

section \<open>Close of the element\<close>

text \<open>
  C8, amended. When both handles were acquired and moveInterfaceToAnotherNamespace from the
  target back to home does not succeed: if it returns an error, Close returns that error,
  wrapped as a failure to move into the namespace of the forwarder; if its restore switch
  fails, Close panics with the panic of the move. In both cases the next Close is not
  invoked, and the home handle and the target handle are closed before control leaves Close.
\<close>

theorem Close_relocation_error:
  assumes "initNetNSSwitchAndHandle (NetNSURL conn) s = (Returned (Some sw, h, None), s1)"
    and "moveInterfaceToAnotherNamespace sw (InterfaceName conn) h (NetNSHandle sw) s1 = (out, s2)"
    and "out \<noteq> Returned None"
  shows "(\<forall>e. out = Returned (Some e) \<longrightarrow>
            fst (Close nxt conn s)
              = Returned (None, Some (FailedMoveIntoForwarder (InterfaceName conn) e)))
       \<and> (\<forall>p. out = Panicked p \<longrightarrow> fst (Close nxt conn s) = Panicked p)
       \<and> snd (Close nxt conn s) = release_handles sw h s2
       \<and> EvNextClose \<notin> set (drop (length (trace s)) (trace (snd (Close nxt conn s))))
       \<and> fd_lookup (snd (Close nxt conn s)) (NetNSHandle sw) = None
       \<and> fd_lookup (snd (Close nxt conn s)) h = None"
proof -
  have st: "snd (Close nxt conn s) = release_handles sw h s2"
    using assms by (auto simp: Close_def split: outcome.splits option.splits)
  obtain tr where tr: "trace s2 = trace s1 @ tr"
      "set tr \<subseteq> {EvGet, EvSet h, EvSet (NetNSHandle sw), EvLinkByName (InterfaceName conn),
                  EvLinkSetNsFd (InterfaceName conn) (NetNSHandle sw)}"
    using move_trace [OF assms(2)] by blast
  have "drop (length (trace s)) (trace (release_handles sw h s2))
          = [EvGet, EvGetFromPath (NetNSURL conn)] @ tr @ [EvCloseFd (NetNSHandle sw), EvCloseFd h]"
    using init_Some_trace [OF assms(1)] tr(1) by (simp add: release_handles_eq(3))
  then have "EvNextClose \<notin> set (drop (length (trace s)) (trace (release_handles sw h s2)))"
    using tr(2) by auto
  then show ?thesis
    using assms st by (auto simp: Close_def release_handles_eq split: outcome.splits option.splits)
qed

section \<open>Request of the element\<close>

text \<open>
  C3, amended. When the move into the target succeeded and the next element returned an
  error, Request runs the move back from the target to home in the state the next element
  left. When that move returns, with or without an error, Request returns the connection
  and the error of the next element, unchanged, after logging the result of the move back
  and closing both handles. When the restore switch of the move back fails, Request
  returns nothing: it panics, after closing both handles.
\<close>

theorem Request_delegation_error:
  assumes "initNetNSSwitchAndHandle (NetNSURL req) s = (Returned (Some sw, h, None), s1)"
    and "moveInterfaceToAnotherNamespace sw (InterfaceName req) (NetNSHandle sw) h s1
           = (Returned None, s2)"
    and "nxt req (emit EvNextRequest
            (emit (EvInfo (MovedIntoClient (InterfaceName req) (Id req))) s2))
           = ((conn, Some err), s3)"
    and "moveInterfaceToAnotherNamespace sw (InterfaceName req) h (NetNSHandle sw) s3 = (out, s4)"
  shows "(out = Returned None \<longrightarrow>
            Request nxt req s
              = (Returned (conn, Some err),
                 release_handles sw h
                   (emit (EvInfo (MovedIntoForwarder (InterfaceName req) (Id req))) s4)))
       \<and> (\<forall>e. out = Returned (Some e) \<longrightarrow>
            Request nxt req s
              = (Returned (conn, Some err),
                 release_handles sw h
                   (emit (EvWarn (FailedMoveIntoForwarderFor (InterfaceName req) (Id req))) s4)))
       \<and> (\<forall>p. out = Panicked p \<longrightarrow>
            Request nxt req s = (Panicked p, release_handles sw h s4))"
  using assms by (simp add: Request_def request_delegate_def)

section \<open>Runs of the scenario\<close>

lemmas scenario_defs = conn1_def s_home_def nxt_refuse_def nxt_accept_def nxt_close_ok_def

text \<open>
  C3, as stated, fails: the move into the target succeeds, the next element refuses, and
  the restore switch of the move back fails; Request panics and returns no error.
\<close>

theorem Request_delegation_error_counterexample:
  "fst (Request nxt_refuse conn1
          (s_home [False, False, False, False, False, False, False, False, False, False, True]))
     = Panicked (PanicMessage (FailedSwitchBack (OSError EvGet)))
   \<and> trace (snd (Request nxt_refuse conn1
          (s_home [False, False, False, False, False, False, False, False, False, False, True])))
     = [EvGet, EvGetFromPath ''/var/run/netns/client1'', EvGet, EvLinkByName ''veth0'',
        EvLinkSetNsFd ''veth0'' 1, EvGet, EvInfo (MovedIntoClient ''veth0'' ''conn-1''),
        EvNextRequest, EvGet, EvSet 1, EvLinkByName ''veth0'', EvLinkSetNsFd ''veth0'' 0,
        EvGet, EvCloseFd 0, EvCloseFd 1]"
  by (simp add: run_simps scenario_defs)

theorem Request_delegation_error_witness:
  "Request nxt_refuse conn1
     (s_home [False, False, False, False, False, False, False, False, True])
   = (Returned (None, Some (Downstream ''refused'')),
      \<lparr>cur = 1, fdt = [(5, 2), (4, 1), (3, 1), (2, 1)],
       paths = [''/var/run/netns/client1'' \<mapsto> 2], ifaces = {(2, ''veth0'')}, faults = [],
       trace = [EvGet, EvGetFromPath ''/var/run/netns/client1'', EvGet, EvLinkByName ''veth0'',
         EvLinkSetNsFd ''veth0'' 1, EvGet, EvInfo (MovedIntoClient ''veth0'' ''conn-1''),
         EvNextRequest, EvGet, EvSet 1, EvLinkByName ''veth0'', EvGet, EvSet 0,
         EvWarn (FailedMoveIntoForwarderFor ''veth0'' ''conn-1''), EvCloseFd 0, EvCloseFd 1]\<rparr>)"
proof -
  let ?s = "s_home [False, False, False, False, False, False, False, False, True]"
  let ?sw = "\<lparr>NetNSHandle = 0\<rparr>"
  let ?s1 = "snd (initNetNSSwitchAndHandle (NetNSURL conn1) ?s)"
  let ?s2 = "snd (moveInterfaceToAnotherNamespace ?sw (InterfaceName conn1) (NetNSHandle ?sw) 1 ?s1)"
  let ?s3 = "emit EvNextRequest
               (emit (EvInfo (MovedIntoClient (InterfaceName conn1) (Id conn1))) ?s2)"
  let ?s4 = "snd (moveInterfaceToAnotherNamespace ?sw (InterfaceName conn1) 1 (NetNSHandle ?sw) ?s3)"
  let ?e = "FailedGetInterface ''veth0'' (OSError (EvLinkByName ''veth0''))"
  have h1: "initNetNSSwitchAndHandle (NetNSURL conn1) ?s = (Returned (Some ?sw, 1, None), ?s1)"
    by (simp add: prod_eq_iff run_simps scenario_defs)
  have h2: "moveInterfaceToAnotherNamespace ?sw (InterfaceName conn1) (NetNSHandle ?sw) 1 ?s1
              = (Returned None, ?s2)"
    by (simp add: prod_eq_iff run_simps scenario_defs)
  have h3: "nxt_refuse conn1 ?s3 = ((None, Some (Downstream ''refused'')), ?s3)"
    by (simp add: nxt_refuse_def)
  have h4: "moveInterfaceToAnotherNamespace ?sw (InterfaceName conn1) 1 (NetNSHandle ?sw) ?s3
              = (Returned (Some ?e), ?s4)"
    by (simp add: prod_eq_iff run_simps scenario_defs)
  have "Request nxt_refuse conn1 ?s
          = (Returned (None, Some (Downstream ''refused'')),
             release_handles ?sw 1
               (emit (EvWarn (FailedMoveIntoForwarderFor (InterfaceName conn1) (Id conn1))) ?s4))"
    using Request_delegation_error [where nxt = nxt_refuse and req = conn1, OF h1 h2 h3 h4] by simp
  then show ?thesis
    by (simp add: run_simps scenario_defs)
qed

text \<open>
  C8, as stated, fails: the interface is not in the target namespace, so the lookup fails,
  and the restore switch fails too; Close panics and the error of the relocation is not
  returned.
\<close>

theorem Close_relocation_error_counterexample:
  "fst (Close nxt_close_ok conn1
          ((s_home [False, False, False, False, False, True])\<lparr>ifaces := {}\<rparr>))
     = Panicked (PanicMessage (FailedSwitchBack (OSError EvGet)))
   \<and> trace (snd (Close nxt_close_ok conn1
          ((s_home [False, False, False, False, False, True])\<lparr>ifaces := {}\<rparr>)))
     = [EvGet, EvGetFromPath ''/var/run/netns/client1'', EvGet, EvSet 1,
        EvLinkByName ''veth0'', EvGet, EvCloseFd 0, EvCloseFd 1]"
  by (simp add: run_simps scenario_defs)

theorem Close_relocation_error_witness:
  "fst (Close nxt_close_ok conn1 ((s_home [])\<lparr>ifaces := {}\<rparr>))
     = Returned (None, Some (FailedMoveIntoForwarder ''veth0''
         (FailedGetInterface ''veth0'' (OSError (EvLinkByName ''veth0'')))))
   \<and> fd_lookup (snd (Close nxt_close_ok conn1 ((s_home [])\<lparr>ifaces := {}\<rparr>))) 0 = None
   \<and> fd_lookup (snd (Close nxt_close_ok conn1 ((s_home [])\<lparr>ifaces := {}\<rparr>))) 1 = None"
proof -
  let ?s = "(s_home [])\<lparr>ifaces := {}\<rparr>"
  let ?sw = "\<lparr>NetNSHandle = 0\<rparr>"
  let ?s1 = "snd (initNetNSSwitchAndHandle (NetNSURL conn1) ?s)"
  let ?s2 = "snd (moveInterfaceToAnotherNamespace ?sw (InterfaceName conn1) 1 (NetNSHandle ?sw) ?s1)"
  let ?e = "FailedGetInterface ''veth0'' (OSError (EvLinkByName ''veth0''))"
  have h1: "initNetNSSwitchAndHandle (NetNSURL conn1) ?s = (Returned (Some ?sw, 1, None), ?s1)"
    by (simp add: prod_eq_iff run_simps scenario_defs)
  have h2: "moveInterfaceToAnotherNamespace ?sw (InterfaceName conn1) 1 (NetNSHandle ?sw) ?s1
              = (Returned (Some ?e), ?s2)"
    by (simp add: prod_eq_iff run_simps scenario_defs)
  have h3: "Returned (Some ?e) \<noteq> Returned None"
    by simp
  note r = Close_relocation_error [OF h1 h2 h3, of nxt_close_ok]
  have a: "fst (Close nxt_close_ok conn1 ?s)
             = Returned (None, Some (FailedMoveIntoForwarder (InterfaceName conn1) ?e))"
    using r by blast
  have b: "fd_lookup (snd (Close nxt_close_ok conn1 ?s)) (NetNSHandle ?sw) = None"
    using r by blast
  have c: "fd_lookup (snd (Close nxt_close_ok conn1 ?s)) 1 = None"
    using r by blast
  show ?thesis
    using a b c by (simp add: conn1_def)
qed

section \<open>Effect of a successful move\<close>




lemma init_success:
  assumes "initNetNSSwitchAndHandle url s = (Returned (Some sw, h, None), s1)"
  shows "fd_lookup s1 (NetNSHandle sw) = Some (cur s)"
    and "\<exists>T. paths s url = Some T \<and> fd_lookup s1 h = Some T"
    and "cur s1 = cur s" and "ifaces s1 = ifaces s" and "paths s1 = paths s"
  using assms
  by (auto simp: initNetNSSwitchAndHandle_def init_deferred_def NewNSSwitch_def
      NSSwitch_Close_ptr_def netns_Get_eq netns_GetFromPath_eq fd_lookup_def
      split: if_splits)



section \<open>Round trip\<close>



section \<open>Parameters of the connection\<close>

lemma move_absent:
  assumes ab: "\<forall>ns. (ns, n) \<notin> ifaces s"
    and mv: "moveInterfaceToAnotherNamespace sw n from to s = (out, s')"
  shows "(\<exists>e. out = Returned (Some (FailedSwitchTo from e)))
         \<or> out = Returned (Some (FailedGetInterface n (OSError (EvLinkByName n))))
         \<or> (\<exists>e. out = Panicked (PanicMessage (FailedSwitchBack e)))"
    and "\<exists>tr. trace s' = trace s @ EvGet # tr"
proof -
  obtain a s1 where sa: "SwitchTo sw from s = (a, s1)"
    by (cases "SwitchTo sw from s")
  obtain r s2 where ml: "move_link n to s1 = (r, s2)"
    by (cases "move_link n to s1")
  obtain b s3 where sb: "SwitchTo sw (NetNSHandle sw) s2 = (b, s3)"
    by (cases "SwitchTo sw (NetNSHandle sw) s2")
  have "(cur s1, n) \<notin> ifaces s1"
    using ab SwitchTo_frame(1) [OF sa] by simp
  then have r: "r = Some (FailedGetInterface n (OSError (EvLinkByName n)))"
    using ml by (auto simp: move_link_eq split: if_splits)
  show "(\<exists>e. out = Returned (Some (FailedSwitchTo from e)))
         \<or> out = Returned (Some (FailedGetInterface n (OSError (EvLinkByName n))))
         \<or> (\<exists>e. out = Panicked (PanicMessage (FailedSwitchBack e)))"
    using mv sa ml sb r
    by (auto simp: moveInterfaceToAnotherNamespace_def split: option.splits)
  have t1: "\<exists>tr. trace s1 = trace s @ EvGet # tr"
    using SwitchTo_trace [OF sa] by auto
  have t2: "\<exists>tr. trace s2 = trace s1 @ tr"
    using move_link_frame(4) [OF ml] by auto
  have t3: "\<exists>tr. trace s3 = trace s2 @ tr"
    using SwitchTo_trace [OF sb] by auto
  have "s' = s1 \<or> s' = s3"
    using mv sa ml sb
    by (auto simp: moveInterfaceToAnotherNamespace_def split: option.splits)
  then show "\<exists>tr. trace s' = trace s @ EvGet # tr"
    using t1 t2 t3 by auto
qed

lemma Request_name_absent:
  assumes init: "initNetNSSwitchAndHandle (NetNSURL c) s = (Returned (Some sw, h, None), s1)"
    and ab: "\<forall>ns. (ns, InterfaceName c) \<notin> ifaces s"
  shows "(\<exists>e. fst (Request nxt c s)
                = Returned (None, Some (FailedMoveIntoClient (InterfaceName c)
                    (FailedSwitchTo (NetNSHandle sw) e))))
         \<or> fst (Request nxt c s)
              = Returned (None, Some (FailedMoveIntoClient (InterfaceName c)
                  (FailedGetInterface (InterfaceName c) (OSError (EvLinkByName (InterfaceName c))))))
         \<or> (\<exists>e. fst (Request nxt c s) = Panicked (PanicMessage (FailedSwitchBack e)))"
    and "\<exists>tr. trace (snd (Request nxt c s)) = trace s1 @ EvGet # tr"
proof -
  obtain out s2 where mv:
    "moveInterfaceToAnotherNamespace sw (InterfaceName c) (NetNSHandle sw) h s1 = (out, s2)"
    by (cases "moveInterfaceToAnotherNamespace sw (InterfaceName c) (NetNSHandle sw) h s1")
  have ab1: "\<forall>ns. (ns, InterfaceName c) \<notin> ifaces s1"
    using ab init_success(4) [OF init] by simp
  note m = move_absent [OF ab1 mv]
  have st: "out \<noteq> Returned None \<Longrightarrow> snd (Request nxt c s) = release_handles sw h s2"
    using init mv by (auto simp: Request_def split: outcome.splits option.splits)
  show "(\<exists>e. fst (Request nxt c s)
                = Returned (None, Some (FailedMoveIntoClient (InterfaceName c)
                    (FailedSwitchTo (NetNSHandle sw) e))))
         \<or> fst (Request nxt c s)
              = Returned (None, Some (FailedMoveIntoClient (InterfaceName c)
                  (FailedGetInterface (InterfaceName c) (OSError (EvLinkByName (InterfaceName c))))))
         \<or> (\<exists>e. fst (Request nxt c s) = Panicked (PanicMessage (FailedSwitchBack e)))"
    using m(1) init mv by (auto simp: Request_def)
  have "out \<noteq> Returned None"
    using m(1) by auto
  then show "\<exists>tr. trace (snd (Request nxt c s)) = trace s1 @ EvGet # tr"
    using st m(2) by (auto simp: release_handles_eq)
qed

lemma Close_name_absent:
  assumes init: "initNetNSSwitchAndHandle (NetNSURL c) s = (Returned (Some sw, h, None), s1)"
    and ab: "\<forall>ns. (ns, InterfaceName c) \<notin> ifaces s"
  shows "(\<exists>e. fst (Close nxt c s)
                = Returned (None, Some (FailedMoveIntoForwarder (InterfaceName c)
                    (FailedSwitchTo h e))))
         \<or> fst (Close nxt c s)
              = Returned (None, Some (FailedMoveIntoForwarder (InterfaceName c)
                  (FailedGetInterface (InterfaceName c) (OSError (EvLinkByName (InterfaceName c))))))
         \<or> (\<exists>e. fst (Close nxt c s) = Panicked (PanicMessage (FailedSwitchBack e)))"
    and "\<exists>tr. trace (snd (Close nxt c s)) = trace s1 @ EvGet # tr"
proof -
  obtain out s2 where mv:
    "moveInterfaceToAnotherNamespace sw (InterfaceName c) h (NetNSHandle sw) s1 = (out, s2)"
    by (cases "moveInterfaceToAnotherNamespace sw (InterfaceName c) h (NetNSHandle sw) s1")
  have ab1: "\<forall>ns. (ns, InterfaceName c) \<notin> ifaces s1"
    using ab init_success(4) [OF init] by simp
  note m = move_absent [OF ab1 mv]
  have st: "out \<noteq> Returned None \<Longrightarrow> snd (Close nxt c s) = release_handles sw h s2"
    using init mv by (auto simp: Close_def split: outcome.splits option.splits)
  show "(\<exists>e. fst (Close nxt c s)
                = Returned (None, Some (FailedMoveIntoForwarder (InterfaceName c)
                    (FailedSwitchTo h e))))
         \<or> fst (Close nxt c s)
              = Returned (None, Some (FailedMoveIntoForwarder (InterfaceName c)
                  (FailedGetInterface (InterfaceName c) (OSError (EvLinkByName (InterfaceName c))))))
         \<or> (\<exists>e. fst (Close nxt c s) = Panicked (PanicMessage (FailedSwitchBack e)))"
    using m(1) init mv by (auto simp: Close_def)
  have "out \<noteq> Returned None"
    using m(1) by auto
  then show "\<exists>tr. trace (snd (Close nxt c s)) = trace s1 @ EvGet # tr"
    using st m(2) by (auto simp: release_handles_eq)
qed

lemmas scenario_defs2 = scenario_defs conn_no_url_def conn_no_name_def

text \<open>
  C6, as stated, fails: with a target reference that opens and an empty interface name,
  Request and Close acquire both handles and attempt the relocation (Close even enters the
  target namespace); the error is the failed lookup of the interface, wrapped as a failure
  to move, not an error of the acquisition.
\<close>

theorem interface_name_not_validated_counterexample:
  "NetNSURL conn_no_name \<noteq> [] \<and> InterfaceName conn_no_name = []
   \<and> Request nxt_accept conn_no_name (s_home [])
       = (Returned (None, Some (FailedMoveIntoClient []
            (FailedGetInterface [] (OSError (EvLinkByName []))))),
          \<lparr>cur = 1, fdt = [(3, 1), (2, 1)], paths = [''/var/run/netns/client1'' \<mapsto> 2],
           ifaces = {(1, ''veth0'')}, faults = [],
           trace = [EvGet, EvGetFromPath ''/var/run/netns/client1'', EvGet, EvLinkByName [],
             EvGet, EvCloseFd 0, EvCloseFd 1]\<rparr>)
   \<and> Close nxt_close_ok conn_no_name (s_home [])
       = (Returned (None, Some (FailedMoveIntoForwarder []
            (FailedGetInterface [] (OSError (EvLinkByName []))))),
          \<lparr>cur = 1, fdt = [(3, 2), (2, 1)], paths = [''/var/run/netns/client1'' \<mapsto> 2],
           ifaces = {(1, ''veth0'')}, faults = [],
           trace = [EvGet, EvGetFromPath ''/var/run/netns/client1'', EvGet, EvSet 1,
             EvLinkByName [], EvGet, EvSet 0, EvCloseFd 0, EvCloseFd 1]\<rparr>)"
  by (simp add: run_simps scenario_defs2)

text \<open>
  C6, amended, for the interface name. The name is not validated: once both handles are
  acquired, with a name that no interface has (the empty name for one), Request and Close
  start the relocation with a switch, and what they give is a failure to move that wraps
  the failed switch or the failed lookup, or the panic of a failed restore switch; it is
  never an error of the acquisition. Nothing is stated here for a reference that does not
  open.
\<close>

theorem interface_name_not_validated:
  assumes "initNetNSSwitchAndHandle (NetNSURL c) s = (Returned (Some sw, h, None), s1)"
    and "\<forall>ns. (ns, InterfaceName c) \<notin> ifaces s"
  shows "((\<exists>e. fst (Request nxt c s)
                = Returned (None, Some (FailedMoveIntoClient (InterfaceName c)
                    (FailedSwitchTo (NetNSHandle sw) e))))
         \<or> fst (Request nxt c s)
              = Returned (None, Some (FailedMoveIntoClient (InterfaceName c)
                  (FailedGetInterface (InterfaceName c) (OSError (EvLinkByName (InterfaceName c))))))
         \<or> (\<exists>e. fst (Request nxt c s) = Panicked (PanicMessage (FailedSwitchBack e))))
      \<and> (\<exists>tr. trace (snd (Request nxt c s)) = trace s1 @ EvGet # tr)
      \<and> ((\<exists>e. fst (Close nxt' c s)
                = Returned (None, Some (FailedMoveIntoForwarder (InterfaceName c)
                    (FailedSwitchTo h e))))
         \<or> fst (Close nxt' c s)
              = Returned (None, Some (FailedMoveIntoForwarder (InterfaceName c)
                  (FailedGetInterface (InterfaceName c) (OSError (EvLinkByName (InterfaceName c))))))
         \<or> (\<exists>e. fst (Close nxt' c s) = Panicked (PanicMessage (FailedSwitchBack e))))
      \<and> (\<exists>tr. trace (snd (Close nxt' c s)) = trace s1 @ EvGet # tr)"
  using Request_name_absent [OF assms] Close_name_absent [OF assms] by blast

theorem interface_name_not_validated_witness:
  "initNetNSSwitchAndHandle (NetNSURL conn_no_name) (s_home [])
     = (Returned (Some \<lparr>NetNSHandle = 0\<rparr>, 1, None),
        \<lparr>cur = 1, fdt = [(1, 2), (0, 1)], paths = [''/var/run/netns/client1'' \<mapsto> 2],
         ifaces = {(1, ''veth0'')}, faults = [],
         trace = [EvGet, EvGetFromPath ''/var/run/netns/client1'']\<rparr>)
   \<and> (\<exists>tr. trace (snd (Request nxt_accept conn_no_name (s_home [])))
              = [EvGet, EvGetFromPath ''/var/run/netns/client1''] @ EvGet # tr)
   \<and> (\<exists>tr. trace (snd (Close nxt_close_ok conn_no_name (s_home [])))
              = [EvGet, EvGetFromPath ''/var/run/netns/client1''] @ EvGet # tr)"
proof -
  let ?s1 = "\<lparr>cur = 1, fdt = [(1, 2), (0, 1)], paths = [''/var/run/netns/client1'' \<mapsto> 2],
         ifaces = {(1, ''veth0'')}, faults = [],
         trace = [EvGet, EvGetFromPath ''/var/run/netns/client1'']\<rparr>"
  have init: "initNetNSSwitchAndHandle (NetNSURL conn_no_name) (s_home [])
                = (Returned (Some \<lparr>NetNSHandle = 0\<rparr>, 1, None), ?s1)"
    by (simp add: run_simps scenario_defs2)
  have ab: "\<forall>ns. (ns, InterfaceName conn_no_name) \<notin> ifaces (s_home [])"
    by (simp add: scenario_defs2)
  note p = interface_name_not_validated [where nxt = nxt_accept and nxt' = nxt_close_ok,
      OF init ab]
  have a: "\<exists>tr. trace (snd (Request nxt_accept conn_no_name (s_home []))) = trace ?s1 @ EvGet # tr"
    using p by blast
  have b: "\<exists>tr. trace (snd (Close nxt_close_ok conn_no_name (s_home []))) = trace ?s1 @ EvGet # tr"
    using p by blast
  show ?thesis
    using init a b by simp
qed

section \<open>A reference that does not open\<close>

text \<open>
  When the read of the current namespace succeeds and the target reference is empty or
  does not resolve, the return statement of initNetNSSwitchAndHandle (line 112) has set the
  result nsSwitch to nil before the deferred function (lines 104-108) calls Close on it:
  Request and Close panic on the nil pointer, the wrapped error is not returned, and the
  home handle opened by NewNSSwitch stays open.
\<close>

lemma unopened_reference_panics:
  assumes "\<not> faulty s" and "NetNSURL c = [] \<or> paths s (NetNSURL c) = None"
  shows "fst (Request nxt c s) = Panicked NilPointerDereference"
    and "fst (Close nxt' c s) = Panicked NilPointerDereference"
    and "fd_lookup (snd (Request nxt c s)) (int (fresh_fd (fdt s))) = Some (cur s)"
    and "fd_lookup (snd (Close nxt' c s)) (int (fresh_fd (fdt s))) = Some (cur s)"
  using assms
  by (auto simp: Request_def Close_def initNetNSSwitchAndHandle_def init_deferred_def
      NewNSSwitch_def NSSwitch_Close_ptr_def netns_Get_eq netns_GetFromPath_eq faulty_def
      fd_lookup_def)

lemma unopened_reference_panics_scenario:
  "Request nxt_accept conn_no_url (s_home [])
     = (Panicked NilPointerDereference,
        \<lparr>cur = 1, fdt = [(0, 1)], paths = [''/var/run/netns/client1'' \<mapsto> 2],
         ifaces = {(1, ''veth0'')}, faults = [], trace = [EvGet, EvGetFromPath []]\<rparr>)"
  by (simp add: run_simps scenario_defs2)

end
